theory Spec2Isabelle
  imports Main "HOL-Library.Sublist"
begin

section \<open>Python strings\<close>

text \<open>
  The tool reads the text that the control binary prints and cuts it with
  \<^verbatim>\<open>str.strip\<close>, \<^verbatim>\<open>str.split\<close>, \<^verbatim>\<open>in\<close>, \<^verbatim>\<open>str.startswith\<close> and \<^verbatim>\<open>str.lower\<close>.
  A \<^typ>\<open>char\<close> stands for a code point below 256; text with larger code points is
  outside the model.
\<close>

abbreviation dquote :: char where "dquote \<equiv> CHR 0x22"
abbreviation newline :: char where "newline \<equiv> CHR 0x0A"
abbreviation bslash :: char where "bslash \<equiv> CHR 0x5C"

text \<open>\<^verbatim>\<open>str.isspace\<close> on the code points below 256.\<close>

definition isspace :: "char \<Rightarrow> bool" where
  "isspace c = ((of_char c :: nat) \<in> {9, 10, 11, 12, 13, 28, 29, 30, 31, 32, 133, 160})"

text \<open>\<^verbatim>\<open>s.strip()\<close> and \<^verbatim>\<open>s.strip(chars)\<close>.\<close>

definition py_strip :: "string \<Rightarrow> string" where
  "py_strip s = rev (dropWhile isspace (rev (dropWhile isspace s)))"

definition py_strip_chars :: "string \<Rightarrow> string \<Rightarrow> string" where
  "py_strip_chars chars s =
     rev (dropWhile (\<lambda>c. c \<in> set chars) (rev (dropWhile (\<lambda>c. c \<in> set chars) s)))"

text \<open>\<^verbatim>\<open>sub in s\<close>: \<open>sub\<close> occurs in \<open>s\<close> as a contiguous piece.\<close>

fun py_in :: "string \<Rightarrow> string \<Rightarrow> bool" where
  "py_in sub [] = (sub = [])"
| "py_in sub (c # cs) = (prefix sub (c # cs) \<or> py_in sub cs)"

text \<open>
  \<^verbatim>\<open>s.split(sep)\<close>: cut at every occurrence of \<open>sep\<close>, found left to right without
  overlap. Python raises \<^verbatim>\<open>ValueError\<close> for an empty separator; every separator in
  the tool is a non-empty literal, and the model returns the text uncut for an
  empty one.
\<close>

function py_split :: "string \<Rightarrow> string \<Rightarrow> string list" where
  "py_split sep [] = [] # []"
| "py_split sep (c # cs) =
     (if sep \<noteq> [] \<and> prefix sep (c # cs)
      then [] # py_split sep (drop (length sep) (c # cs))
      else (case py_split sep cs of
              [] \<Rightarrow> [c] # []
            | piece # pieces \<Rightarrow> (c # piece) # pieces))"
  by pat_completeness auto
termination
  by (relation "measure (\<lambda>(sep, s). length s)") (auto simp: neq_Nil_conv)

text \<open>\<^verbatim>\<open>s.lower()\<close> on the code points below 256.\<close>

definition lower_char :: "char \<Rightarrow> char" where
  "lower_char c =
     (let n = (of_char c :: nat)
      in if (65 \<le> n \<and> n \<le> 90) \<or> (192 \<le> n \<and> n \<le> 222 \<and> n \<noteq> 215)
         then char_of (n + 32) else c)"

definition py_lower :: "string \<Rightarrow> string" where
  "py_lower s = map lower_char s"

text \<open>Truthiness of an optional string: \<^verbatim>\<open>None\<close> and \<^verbatim>\<open>""\<close> are false.\<close>

fun truthy :: "string option \<Rightarrow> bool" where
  "truthy None = False"
| "truthy (Some s) = (s \<noteq> [])"

section \<open>External processes\<close>

text \<open>
  Every external effect of the tool is a call of \<^verbatim>\<open>subprocess.run\<close> (argument
  vector, input payload, timeout in seconds) or of \<^verbatim>\<open>subprocess.Popen\<close>. The
  trace is the list of the calls made so far, oldest first.
\<close>

datatype call =
    Run "string list" "string option" nat
  | Popen "string list"

type_synonym trace = "call list"

text \<open>What the operating system answers to a call.\<close>

datatype outcome =
    Exited int string string \<comment> \<open>return code, stdout, stderr\<close>
  | TimedOut
  | MissingFile
  | OtherFailure

text \<open>
  The environment: the answer to a call and the existence of a file may depend
  on the calls made before; \<open>path_dirname\<close> and \<open>path_join\<close> are the platform's
  \<^verbatim>\<open>os.path.dirname\<close> and \<^verbatim>\<open>os.path.join\<close>.
\<close>

record world =
  respond :: "trace \<Rightarrow> call \<Rightarrow> outcome"
  path_exists :: "trace \<Rightarrow> string \<Rightarrow> bool"
  path_dirname :: "string \<Rightarrow> string"
  path_join :: "string \<Rightarrow> string \<Rightarrow> string"

datatype exn =
    CalledProcessError int string string
  | TimeoutExpired
  | FileNotFoundError
  | IndexError
  | OtherException

datatype CompletedProcess =
  CompletedProcess (returncode: int) (stdout: string) (stderr: string)

text \<open>
  \<^verbatim>\<open>subprocess.run(cmd, capture_output=True, text=True, check=..., timeout=...)\<close>:
  with \<open>check\<close> a non-zero return code raises \<^verbatim>\<open>CalledProcessError\<close>.
\<close>

definition subprocess_run ::
  "world \<Rightarrow> bool \<Rightarrow> call \<Rightarrow> trace \<Rightarrow> (exn + CompletedProcess) \<times> trace" where
  "subprocess_run w check c t =
     ((case respond w t c of
         Exited rc out err \<Rightarrow>
           if check \<and> rc \<noteq> 0 then Inl (CalledProcessError rc out err)
           else Inr (CompletedProcess rc out err)
       | TimedOut \<Rightarrow> Inl TimeoutExpired
       | MissingFile \<Rightarrow> Inl FileNotFoundError
       | OtherFailure \<Rightarrow> Inl OtherException),
      t @ [c])"

text \<open>
  \<^verbatim>\<open>subprocess.Popen(cmd, shell=False)\<close> returns once the child is spawned; the
  child's return code is never read.
\<close>

definition subprocess_Popen :: "world \<Rightarrow> string list \<Rightarrow> trace \<Rightarrow> exn option \<times> trace" where
  "subprocess_Popen w argv t =
     ((case respond w t (Popen argv) of
         Exited rc out err \<Rightarrow> None
       | TimedOut \<Rightarrow> Some TimeoutExpired
       | MissingFile \<Rightarrow> Some FileNotFoundError
       | OtherFailure \<Rightarrow> Some OtherException),
      t @ [Popen argv])"

section \<open>VMManager\<close>

text \<open>
  The manager's one field with instance lifetime is the located binary. The
  logger only prints; log lines are not part of any returned value and are left
  out, but for the two warnings of \<^verbatim>\<open>get_vm_ip\<close>, which \<open>get_vm_ip_warning\<close> gives.
\<close>

record VMManager =
  vboxmanage_path :: "string option"

subsection \<open>broadcast_message_to_vm\<close>

definition broadcast_cmd :: "string \<Rightarrow> string \<Rightarrow> string \<Rightarrow> string \<Rightarrow> call" where
  "broadcast_cmd p vm_name user message =
     Run [p, ''guestcontrol'', vm_name, ''--username'', user,
          ''run'', ''--exe'', ''/usr/bin/wall'', ''--'', ''wall'', message] None 30"

definition broadcast_message_to_vm ::
  "world \<Rightarrow> VMManager \<Rightarrow> string \<Rightarrow> string \<Rightarrow> string \<Rightarrow> trace \<Rightarrow> bool \<times> trace" where
  "broadcast_message_to_vm w self vm_name user message t =
     (if \<not> truthy (vboxmanage_path self) then (False, t)
      else
        (case subprocess_run w False
                (broadcast_cmd (the (vboxmanage_path self)) vm_name user message) t of
           (Inr result, t') \<Rightarrow> (if returncode result = 0 then (True, t') else (False, t'))
         | (Inl e, t') \<Rightarrow> (False, t')))"

subsection \<open>stop_vm\<close>

definition stop_cmd :: "string \<Rightarrow> string \<Rightarrow> bool \<Rightarrow> call" where
  "stop_cmd p vm_name graceful =
     (if graceful then Run [p, ''controlvm'', vm_name, ''acpipowerbutton''] None 30
      else Run [p, ''controlvm'', vm_name, ''poweroff''] None 30)"

definition stop_vm ::
  "world \<Rightarrow> VMManager \<Rightarrow> string \<Rightarrow> bool \<Rightarrow> trace \<Rightarrow> bool \<times> trace" where
  "stop_vm w self vm_name graceful t =
     (if \<not> truthy (vboxmanage_path self) then (False, t)
      else
        (case broadcast_message_to_vm w self vm_name ''nhu'' ''System will be shutdown'' t of
           (warned, t1) \<Rightarrow>
             (case subprocess_run w True
                     (stop_cmd (the (vboxmanage_path self)) vm_name graceful) t1 of
                (Inr result, t2) \<Rightarrow> (True, t2)
              | (Inl e, t2) \<Rightarrow> (False, t2))))"

subsection \<open>list_vms\<close>

text \<open>\<^verbatim>\<open>xs[1]\<close>: the second element, or \<^verbatim>\<open>IndexError\<close>.\<close>

fun index1 :: "'a list \<Rightarrow> exn + 'a" where
  "index1 (x # y # ys) = Inr y"
| "index1 xs = Inl IndexError"

text \<open>The loop over the lines of the listing, appending to \<open>vm_names\<close>.\<close>

fun collect_vm_names :: "string list \<Rightarrow> string list \<Rightarrow> exn + string list" where
  "collect_vm_names [] vm_names = Inr vm_names"
| "collect_vm_names (line # rest) vm_names =
     (if py_strip line \<noteq> [] then
        (if py_in [dquote] line then
           (case index1 (py_split [dquote] line) of
              Inl e \<Rightarrow> Inl e
            | Inr vm_name \<Rightarrow> collect_vm_names rest (vm_names @ [vm_name]))
         else collect_vm_names rest vm_names)
      else collect_vm_names rest vm_names)"

definition list_cmd :: "string \<Rightarrow> call" where
  "list_cmd p = Run [p, ''list'', ''vms''] None 30"

definition list_vms :: "world \<Rightarrow> VMManager \<Rightarrow> trace \<Rightarrow> string list \<times> trace" where
  "list_vms w self t =
     (if \<not> truthy (vboxmanage_path self) then ([], t)
      else
        (case subprocess_run w True (list_cmd (the (vboxmanage_path self))) t of
           (Inr result, t') \<Rightarrow>
             (case collect_vm_names (py_split [newline] (py_strip (stdout result))) [] of
                Inr vm_names \<Rightarrow> (vm_names, t')
              | Inl e \<Rightarrow> ([], t'))
         | (Inl e, t') \<Rightarrow> ([], t')))"

subsection \<open>start_vm\<close>

definition start_cmd :: "string \<Rightarrow> string \<Rightarrow> bool \<Rightarrow> call" where
  "start_cmd p vm_name headless =
     Run [p, ''startvm'', vm_name, ''--type'', (if headless then ''headless'' else ''gui'')]
       None 60"

definition start_vm ::
  "world \<Rightarrow> VMManager \<Rightarrow> string \<Rightarrow> bool \<Rightarrow> trace \<Rightarrow> bool \<times> trace" where
  "start_vm w self vm_name headless t =
     (if \<not> truthy (vboxmanage_path self) then (False, t)
      else
        (case subprocess_run w True
                (start_cmd (the (vboxmanage_path self)) vm_name headless) t of
           (Inr result, t') \<Rightarrow> (True, t')
         | (Inl e, t') \<Rightarrow> (False, t')))"

subsection \<open>get_vm_ip\<close>

text \<open>
  The parsing part of \<^verbatim>\<open>get_vm_ip\<close>, on the stripped output of the guest-property
  query.
\<close>

definition parse_guest_ip :: "string \<Rightarrow> exn + string option" where
  "parse_guest_ip output =
     (if py_in ''No value set!'' output then Inr None
      else if py_in ''Value: '' output then
        (case index1 (py_split ''Value: '' output) of
           Inl e \<Rightarrow> Inl e
         | Inr ip_address \<Rightarrow> Inr (Some (py_strip ip_address)))
      else Inr None)"

text \<open>
  The warning that the same branches log: one text for the marker, another for an
  output that cannot be parsed, none when an address is found.
\<close>

definition get_vm_ip_warning :: "string \<Rightarrow> string \<Rightarrow> string option" where
  "get_vm_ip_warning vm_name output =
     (if py_in ''No value set!'' output then
        Some (''No IP address found for VM '' @ [CHR 0x27] @ vm_name @ [CHR 0x27]
              @ ''. VM might not be running or Guest Additions not installed.'')
      else if py_in ''Value: '' output then None
      else Some (''Could not parse IP address for VM '' @ [CHR 0x27] @ vm_name @ [CHR 0x27]
                 @ ''. Output: '' @ output))"

definition ip_cmd :: "string \<Rightarrow> string \<Rightarrow> call" where
  "ip_cmd p vm_name =
     Run [p, ''guestproperty'', ''get'', vm_name, ''/VirtualBox/GuestInfo/Net/0/V4/IP'']
       None 30"

definition get_vm_ip ::
  "world \<Rightarrow> VMManager \<Rightarrow> string \<Rightarrow> trace \<Rightarrow> string option \<times> trace" where
  "get_vm_ip w self vm_name t =
     (if \<not> truthy (vboxmanage_path self) then (None, t)
      else
        (case subprocess_run w True (ip_cmd (the (vboxmanage_path self)) vm_name) t of
           (Inr result, t') \<Rightarrow>
             (case parse_guest_ip (py_strip (stdout result)) of
                Inr ip \<Rightarrow> (ip, t')
              | Inl e \<Rightarrow> (None, t'))
         | (Inl e, t') \<Rightarrow> (None, t')))"

subsection \<open>get_vm_status\<close>

text \<open>The loop over the lines of the machine-readable info, up to the first state line.\<close>

fun find_state :: "string list \<Rightarrow> exn + string option" where
  "find_state [] = Inr None"
| "find_state (line # rest) =
     (if prefix ''VMState='' line then
        (case index1 (py_split ''='' line) of
           Inl e \<Rightarrow> Inl e
         | Inr v \<Rightarrow> Inr (Some (py_strip_chars [dquote] v)))
      else find_state rest)"

definition info_cmd :: "string \<Rightarrow> string \<Rightarrow> call" where
  "info_cmd p vm_name = Run [p, ''showvminfo'', vm_name, ''--machinereadable''] None 30"

definition get_vm_status ::
  "world \<Rightarrow> VMManager \<Rightarrow> string \<Rightarrow> trace \<Rightarrow> string option \<times> trace" where
  "get_vm_status w self vm_name t =
     (if \<not> truthy (vboxmanage_path self) then (None, t)
      else
        (case subprocess_run w True (info_cmd (the (vboxmanage_path self)) vm_name) t of
           (Inr result, t') \<Rightarrow>
             (case find_state (py_split [newline] (py_strip (stdout result))) of
                Inr state \<Rightarrow> (state, t')
              | Inl e \<Rightarrow> (None, t'))
         | (Inl e, t') \<Rightarrow> (None, t')))"

subsection \<open>send_message_to_vm\<close>

definition ssh_cmd :: "string \<Rightarrow> string \<Rightarrow> string option \<Rightarrow> string \<Rightarrow> call" where
  "ssh_cmd user ip password message =
     Run [''ssh'', ''-o'', ''StrictHostKeyChecking=no'',
          ''-o'', ''UserKnownHostsFile=/dev/null'',
          user @ ''@'' @ ip,
          ''echo '' @ [CHR 0x27] @ message @ [CHR 0x27] @ '' | wall'']
       password 30"

definition send_message_to_vm ::
  "world \<Rightarrow> VMManager \<Rightarrow> string \<Rightarrow> string \<Rightarrow> string option \<Rightarrow> string \<Rightarrow> trace
     \<Rightarrow> bool \<times> trace" where
  "send_message_to_vm w self vm_name user password message t =
     (if \<not> truthy (vboxmanage_path self) then (False, t)
      else
        (case get_vm_ip w self vm_name t of
           (ip, t1) \<Rightarrow>
             if \<not> truthy ip then (False, t1)
             else
               (case subprocess_run w False (ssh_cmd user (the ip) password message) t1 of
                  (Inr result, t2) \<Rightarrow>
                    (if returncode result = 0 then (True, t2) else (False, t2))
                | (Inl e, t2) \<Rightarrow> (False, t2))))"

subsection \<open>open_terminal\<close>

definition wt_cmd :: "string \<Rightarrow> string \<Rightarrow> string \<Rightarrow> string list" where
  "wt_cmd vm_name user ip =
     [''wt'', ''new-tab'', ''--title'', ''SSH-'' @ vm_name, ''--'', ''ssh'', user @ ''@'' @ ip]"

definition open_terminal ::
  "world \<Rightarrow> VMManager \<Rightarrow> string \<Rightarrow> string \<Rightarrow> trace \<Rightarrow> bool \<times> trace" where
  "open_terminal w self vm_name user t =
     (if \<not> truthy (vboxmanage_path self) then (False, t)
      else
        (case get_vm_ip w self vm_name t of
           (ip, t1) \<Rightarrow>
             if \<not> truthy ip then (False, t1)
             else
               (case subprocess_Popen w (wt_cmd vm_name user (the ip)) t1 of
                  (None, t2) \<Rightarrow> (True, t2)
                | (Some e, t2) \<Rightarrow> (False, t2))))"

subsection \<open>start_vm_and_open_a_terminal\<close>

text \<open>The method returns the integers 1 and 0, not booleans.\<close>

definition start_vm_and_open_a_terminal ::
  "world \<Rightarrow> VMManager \<Rightarrow> string \<Rightarrow> string \<Rightarrow> trace \<Rightarrow> int \<times> trace" where
  "start_vm_and_open_a_terminal w self vm_name user t =
     (case get_vm_status w self vm_name t of
        (status, t1) \<Rightarrow>
          (case (if status \<noteq> Some ''running''
                 then snd (start_vm w self vm_name True t1) else t1) of
             t2 \<Rightarrow>
               (case get_vm_status w self vm_name t2 of
                  (status2, t3) \<Rightarrow>
                    if status2 \<noteq> Some ''running'' then (1, t3)
                    else (case open_terminal w self vm_name user t3 of
                            (opened, t4) \<Rightarrow> (0, t4)))))"

subsection \<open>install_guest_additions\<close>

text \<open>The loop looking for the first IDE or SATA controller line; it stops at the first match.\<close>

fun find_controller :: "string list \<Rightarrow> exn + string option" where
  "find_controller [] = Inr None"
| "find_controller (line # rest) =
     (if py_in ''storagecontrollername'' (py_lower line)
         \<and> (py_in ''ide'' (py_lower line) \<or> py_in ''sata'' (py_lower line))
      then (case index1 (py_split ''='' line) of
              Inl e \<Rightarrow> Inl e
            | Inr v \<Rightarrow> Inr (Some (py_strip_chars [dquote] v)))
      else find_controller rest)"

definition attach_cmd :: "string \<Rightarrow> string \<Rightarrow> string \<Rightarrow> string \<Rightarrow> string \<Rightarrow> call" where
  "attach_cmd p vm_name controller_name port medium =
     Run [p, ''storageattach'', vm_name,
          ''--storagectl'', controller_name,
          ''--port'', port,
          ''--device'', ''0'',
          ''--type'', ''dvddrive'',
          ''--medium'', medium] None 30"

text \<open>
  The loop over \<open>ports_to_try\<close>: \<open>Inr True\<close> is \<open>mounted\<close> after a \<^verbatim>\<open>break\<close>, \<open>Inr False\<close>
  the loop running out; only \<^verbatim>\<open>CalledProcessError\<close> is caught inside the loop.
\<close>

fun try_ports ::
  "world \<Rightarrow> string \<Rightarrow> string \<Rightarrow> string \<Rightarrow> string \<Rightarrow> string list \<Rightarrow> trace
     \<Rightarrow> (exn + bool) \<times> trace" where
  "try_ports w p vm_name controller_name iso_file [] t = (Inr False, t)"
| "try_ports w p vm_name controller_name iso_file (port # rest) t =
     (case subprocess_run w True (attach_cmd p vm_name controller_name port iso_file) t of
        (Inr result, t') \<Rightarrow> (Inr True, t')
      | (Inl (CalledProcessError rc out err), t') \<Rightarrow>
          try_ports w p vm_name controller_name iso_file rest t'
      | (Inl e, t') \<Rightarrow> (Inl e, t'))"

text \<open>
  The block that adds an empty drive on port 1 and mounts again. Its own handler turns
  \<^verbatim>\<open>CalledProcessError\<close> into \<^verbatim>\<open>return False\<close>; anything else goes to the outer handlers.
\<close>

definition add_drive_and_mount ::
  "world \<Rightarrow> string \<Rightarrow> string \<Rightarrow> string \<Rightarrow> string \<Rightarrow> trace \<Rightarrow> (exn + bool) \<times> trace" where
  "add_drive_and_mount w p vm_name controller_name iso_file t =
     (case subprocess_run w True
             (attach_cmd p vm_name controller_name ''1'' ''emptydrive'') t of
        (Inr added, t1) \<Rightarrow>
          (case subprocess_run w True (attach_cmd p vm_name controller_name ''1'' iso_file) t1 of
             (Inr result, t2) \<Rightarrow> (Inr True, t2)
           | (Inl (CalledProcessError rc out err), t2) \<Rightarrow> (Inr False, t2)
           | (Inl e, t2) \<Rightarrow> (Inl e, t2))
      | (Inl (CalledProcessError rc out err), t1) \<Rightarrow> (Inr False, t1)
      | (Inl e, t1) \<Rightarrow> (Inl e, t1))"

definition guest_additions_iso :: "world \<Rightarrow> string \<Rightarrow> string" where
  "guest_additions_iso w p = path_join w (path_dirname w p) ''VBoxGuestAdditions.iso''"

definition install_guest_additions ::
  "world \<Rightarrow> VMManager \<Rightarrow> string \<Rightarrow> trace \<Rightarrow> bool \<times> trace" where
  "install_guest_additions w self vm_name t =
     (if \<not> truthy (vboxmanage_path self) then (False, t)
      else
        let p = the (vboxmanage_path self);
            iso_file = guest_additions_iso w p
        in
          if \<not> path_exists w t iso_file then (False, t)
          else
            (case subprocess_run w True (info_cmd p vm_name) t of
               (Inl e, t1) \<Rightarrow> (False, t1)
             | (Inr result, t1) \<Rightarrow>
                 (case find_controller (py_split [newline] (stdout result)) of
                    Inl e \<Rightarrow> (False, t1)
                  | Inr found \<Rightarrow>
                      let controller_name =
                            (if \<not> truthy found then ''IDE Controller'' else the found)
                      in
                        (case try_ports w p vm_name controller_name iso_file [''1'', ''0''] t1 of
                           (Inl e, t2) \<Rightarrow> (False, t2)
                         | (Inr True, t2) \<Rightarrow> (True, t2)
                         | (Inr False, t2) \<Rightarrow>
                             (case add_drive_and_mount w p vm_name controller_name iso_file t2 of
                                (Inl e, t3) \<Rightarrow> (False, t3)
                              | (Inr mounted, t3) \<Rightarrow> (mounted, t3))))))"

subsection \<open>find_vboxmanage\<close>

definition windows_path :: string where
  "windows_path =
     ''C:'' @ [bslash] @ ''Program Files'' @ [bslash] @ ''Oracle'' @ [bslash]
       @ ''VirtualBox'' @ [bslash] @ ''VBoxManage.exe''"

definition windows_x86_path :: string where
  "windows_x86_path =
     ''C:'' @ [bslash] @ ''Program Files (x86)'' @ [bslash] @ ''Oracle'' @ [bslash]
       @ ''VirtualBox'' @ [bslash] @ ''VBoxManage.exe''"

definition common_paths :: "string list" where
  "common_paths =
     [windows_path, windows_x86_path, ''/usr/bin/VBoxManage'', ''/usr/local/bin/VBoxManage'',
      ''/Applications/VirtualBox.app/Contents/MacOS/VBoxManage'']"

definition version_cmd :: "string \<Rightarrow> call" where
  "version_cmd p = Run [p, ''--version''] None 10"

text \<open>
  Each stage of the search gives \<open>Inr (Some p)\<close> for \<^verbatim>\<open>return p\<close>, \<open>Inr None\<close> when the
  search goes on, and \<open>Inl e\<close> for an exception that no handler of the stage catches
  and that reaches the method's outer \<^verbatim>\<open>except Exception\<close>.
\<close>

definition probe_specific_path :: "world \<Rightarrow> trace \<Rightarrow> (exn + string option) \<times> trace" where
  "probe_specific_path w t =
     (if path_exists w t windows_path then
        (case subprocess_run w True (version_cmd windows_path) t of
           (Inr result, t') \<Rightarrow> (Inr (Some windows_path), t')
         | (Inl (CalledProcessError rc out err), t') \<Rightarrow> (Inr None, t')
         | (Inl TimeoutExpired, t') \<Rightarrow> (Inr None, t')
         | (Inl e, t') \<Rightarrow> (Inl e, t'))
      else (Inr None, t))"

definition probe_system_path :: "world \<Rightarrow> trace \<Rightarrow> (exn + string option) \<times> trace" where
  "probe_system_path w t =
     (case subprocess_run w True (version_cmd ''VBoxManage'') t of
        (Inr result, t') \<Rightarrow> (Inr (Some ''VBoxManage''), t')
      | (Inl (CalledProcessError rc out err), t') \<Rightarrow> (Inr None, t')
      | (Inl FileNotFoundError, t') \<Rightarrow> (Inr None, t')
      | (Inl e, t') \<Rightarrow> (Inl e, t'))"

fun probe_common_paths ::
  "world \<Rightarrow> string list \<Rightarrow> trace \<Rightarrow> (exn + string option) \<times> trace" where
  "probe_common_paths w [] t = (Inr None, t)"
| "probe_common_paths w (path # rest) t =
     (if path_exists w t path then
        (case subprocess_run w True (version_cmd path) t of
           (Inr result, t') \<Rightarrow> (Inr (Some path), t')
         | (Inl (CalledProcessError rc out err), t') \<Rightarrow> probe_common_paths w rest t'
         | (Inl TimeoutExpired, t') \<Rightarrow> probe_common_paths w rest t'
         | (Inl e, t') \<Rightarrow> (Inl e, t'))
      else probe_common_paths w rest t)"

text \<open>
  The three stages in order; running out of candidates raises \<^verbatim>\<open>FileNotFoundError\<close>,
  which the outer handler turns into \<^verbatim>\<open>None\<close> like every other exception.
\<close>

definition find_vboxmanage :: "world \<Rightarrow> trace \<Rightarrow> string option \<times> trace" where
  "find_vboxmanage w t =
     (case probe_specific_path w t of
        (Inl e, t1) \<Rightarrow> (None, t1)
      | (Inr (Some p), t1) \<Rightarrow> (Some p, t1)
      | (Inr None, t1) \<Rightarrow>
          (case probe_system_path w t1 of
             (Inl e, t2) \<Rightarrow> (None, t2)
           | (Inr (Some p), t2) \<Rightarrow> (Some p, t2)
           | (Inr None, t2) \<Rightarrow>
               (case probe_common_paths w common_paths t2 of
                  (Inl e, t3) \<Rightarrow> (None, t3)
                | (Inr (Some p), t3) \<Rightarrow> (Some p, t3)
                | (Inr None, t3) \<Rightarrow> (None, t3))))"

text \<open>\<^verbatim>\<open>VMManager.__init__\<close>.\<close>

definition VMManager_init :: "world \<Rightarrow> trace \<Rightarrow> VMManager \<times> trace" where
  "VMManager_init w t =
     (case find_vboxmanage w t of (p, t') \<Rightarrow> (\<lparr>vboxmanage_path = p\<rparr>, t'))"

section \<open>main\<close>

text \<open>
  The command line after argument parsing and the interactive prompts: for the
  actions that read them, \<open>args_vm_name\<close>, \<open>args_user\<close> and \<open>args_text\<close> hold the value
  given or prompted for. The password stays optional.
\<close>

datatype action = Start | Stop | Ip | List | Guest | Terminal | Message | Svo | Status

record args =
  args_action :: action
  args_vm_name :: string
  args_gui :: bool
  args_force :: bool
  args_user :: string
  args_password :: "string option"
  args_text :: string

text \<open>
  The part of \<^verbatim>\<open>main\<close> from the check of the located binary on. The result is the
  process exit status: 1 where the source calls \<^verbatim>\<open>exit(1)\<close>, 0 where it runs to its
  end. What the branches print is left out.
\<close>

definition run_action :: "world \<Rightarrow> VMManager \<Rightarrow> args \<Rightarrow> trace \<Rightarrow> int \<times> trace" where
  "run_action w vm_manager a t =
     (if \<not> truthy (vboxmanage_path vm_manager) then (1, t)
      else
        (case args_action a of
           Start \<Rightarrow>
             (case start_vm w vm_manager (args_vm_name a) (\<not> args_gui a) t of
                (success, t') \<Rightarrow> (if \<not> success then 1 else 0, t'))
         | Stop \<Rightarrow>
             (case stop_vm w vm_manager (args_vm_name a) (\<not> args_force a) t of
                (success, t') \<Rightarrow> (if \<not> success then 1 else 0, t'))
         | Ip \<Rightarrow>
             (case get_vm_ip w vm_manager (args_vm_name a) t of
                (ip, t') \<Rightarrow> (if ip = None then 1 else 0, t'))
         | List \<Rightarrow>
             (case list_vms w vm_manager t of
                (vms, t') \<Rightarrow> (0, t'))
         | Guest \<Rightarrow>
             (case install_guest_additions w vm_manager (args_vm_name a) t of
                (success, t') \<Rightarrow> (if \<not> success then 1 else 0, t'))
         | Terminal \<Rightarrow>
             (case open_terminal w vm_manager (args_vm_name a) (args_user a) t of
                (success, t') \<Rightarrow> (if \<not> success then 1 else 0, t'))
         | Message \<Rightarrow>
             (case broadcast_message_to_vm w vm_manager (args_vm_name a) (args_user a)
                     (args_text a) t of
                (success, t1) \<Rightarrow>
                  (case (if \<not> success \<and> truthy (args_password a)
                         then send_message_to_vm w vm_manager (args_vm_name a) (args_user a)
                                (args_password a) (args_text a) t1
                         else (success, t1)) of
                     (success', t2) \<Rightarrow> (if success' then 0 else 1, t2)))
         | Svo \<Rightarrow>
             (case start_vm_and_open_a_terminal w vm_manager (args_vm_name a) (args_user a) t of
                (success, t') \<Rightarrow> (if success = 0 then 1 else 0, t'))
         | Status \<Rightarrow>
             (case get_vm_status w vm_manager (args_vm_name a) t of
                (status, t') \<Rightarrow> (if status = None then 1 else 0, t'))))"

text \<open>\<^verbatim>\<open>main\<close> for a command line that needs no prompt: locate the binary, then act.\<close>

definition main :: "world \<Rightarrow> args \<Rightarrow> int \<times> trace" where
  "main w a = (case VMManager_init w [] of (vm_manager, t) \<Rightarrow> run_action w vm_manager a t)"

section \<open>Observations on calls and traces\<close>

text \<open>A call went well when the process exited with return code 0.\<close>

fun exited_zero :: "outcome \<Rightarrow> bool" where
  "exited_zero (Exited rc out err) = (rc = 0)"
| "exited_zero other = False"

text \<open>How often a given call occurs in a trace.\<close>

definition calls_of :: "call \<Rightarrow> trace \<Rightarrow> nat" where
  "calls_of c t = length (filter (\<lambda>d. d = c) t)"

text \<open>The shape of the calls that matter: the verb is the word after the binary.\<close>

fun verb_is :: "string \<Rightarrow> call \<Rightarrow> bool" where
  "verb_is v (Run argv payload secs) = (take 1 (drop 1 argv) = [v])"
| "verb_is v (Popen argv) = False"

fun is_ssh :: "call \<Rightarrow> bool" where
  "is_ssh (Run argv payload secs) =
     (length argv = 7 \<and> take 2 argv = [''ssh'', ''-o''])"
| "is_ssh (Popen argv) = False"

fun is_Popen :: "call \<Rightarrow> bool" where
  "is_Popen (Popen argv) = True"
| "is_Popen (Run argv payload secs) = False"




section \<open>The listing, in words\<close>

text \<open>
  The text after the first double quote of a line, up to the next double quote, or to
  the end of the line when the quote is never closed. For a line with a quoted token
  this is its first quoted substring.
\<close>

definition first_quoted :: "string \<Rightarrow> string" where
  "first_quoted line =
     takeWhile (\<lambda>c. c \<noteq> dquote) (drop 1 (dropWhile (\<lambda>c. c \<noteq> dquote) line))"

text \<open>A line contains a quoted token when it has an opening and a closing double quote.\<close>

definition has_quoted_token :: "string \<Rightarrow> bool" where
  "has_quoted_token line = (2 \<le> length (filter (\<lambda>c. c = dquote) line))"

text \<open>
  The listing as the specification words it: one name per line that contains a quoted
  token, the first quoted substring of the line, in the order of the lines; every other
  line is skipped.
\<close>

definition parse_vm_list_spec :: "string \<Rightarrow> string list" where
  "parse_vm_list_spec text =
     map first_quoted (filter has_quoted_token (py_split [newline] (py_strip text)))"

text \<open>
  The listing by the double-quote character alone: one name per line that has a double
  quote, closed or not; only the lines without any double quote are skipped.
\<close>

definition names_of_quote_lines :: "string \<Rightarrow> string list" where
  "names_of_quote_lines text =
     map first_quoted (filter (\<lambda>line. dquote \<in> set line) (py_split [newline] (py_strip text)))"

section \<open>Example environments\<close>

text \<open>
  Concrete environments on which the theorems below are instantiated. The two
  path functions are \<^verbatim>\<open>posixpath.dirname\<close> and \<^verbatim>\<open>posixpath.join\<close> for two arguments:
  the head of a path is all of it up to the last slash, with the trailing slashes
  removed unless it consists of slashes only.
\<close>

definition posix_dirname :: "string \<Rightarrow> string" where
  "posix_dirname p =
     (let head = rev (dropWhile (\<lambda>c. c \<noteq> CHR ''/'') (rev p))
      in if head \<noteq> [] \<and> \<not> list_all (\<lambda>c. c = CHR ''/'') head
         then rev (dropWhile (\<lambda>c. c = CHR ''/'') (rev head))
         else head)"

definition posix_join :: "string \<Rightarrow> string \<Rightarrow> string" where
  "posix_join a b =
     (if prefix ''/'' b then b
      else if a = [] then b
      else if last a = CHR ''/'' then a @ b
      else a @ ''/'' @ b)"

definition located_manager :: VMManager where
  "located_manager = \<lparr>vboxmanage_path = Some ''VBoxManage''\<rparr>"

text \<open>Nothing is installed: no file exists and no binary can be run.\<close>

definition world_nothing_installed :: world where
  "world_nothing_installed =
     \<lparr>respond = (\<lambda>t c. MissingFile), path_exists = (\<lambda>t p. False),
      path_dirname = posix_dirname, path_join = posix_join\<rparr>"

text \<open>
  A guest without guest tooling: \<^verbatim>\<open>guestcontrol\<close> exits with 1, the guest property
  holds an address, and the machine is running once \<^verbatim>\<open>startvm\<close> has been called.
\<close>

definition vmstate_line :: "string \<Rightarrow> string" where
  "vmstate_line s = ''VMState='' @ [dquote] @ s @ [dquote]"

definition world_no_guest_tools :: world where
  "world_no_guest_tools =
     \<lparr>respond = (\<lambda>t c.
        if verb_is ''guestcontrol'' c then Exited 1 [] ''guest additions missing''
        else if verb_is ''guestproperty'' c then Exited 0 (''Value: 10.0.2.15'' @ [newline]) []
        else if verb_is ''showvminfo'' c then
          Exited 0 (if list_ex (verb_is ''startvm'') t then vmstate_line ''running''
                    else vmstate_line ''poweroff'') []
        else Exited 0 [] []),
      path_exists = (\<lambda>t p. False),
      path_dirname = posix_dirname, path_join = posix_join\<rparr>"

definition message_args :: "string option \<Rightarrow> args" where
  "message_args pw =
     \<lparr>args_action = Message, args_vm_name = ''web-01'', args_gui = False,
      args_force = False, args_user = ''alice'', args_password = pw,
      args_text = ''hello''\<rparr>"

text \<open>
  The binary sits in \<^verbatim>\<open>/usr/bin\<close> and runs, but running the bare name found through
  PATH hangs until the timeout.
\<close>

definition world_path_probe_hangs :: world where
  "world_path_probe_hangs =
     \<lparr>respond = (\<lambda>t c. if c = version_cmd ''VBoxManage'' then TimedOut
                         else Exited 0 ''7.0.14'' []),
      path_exists = (\<lambda>t p. p = ''/usr/bin/VBoxManage''),
      path_dirname = posix_dirname, path_join = posix_join\<rparr>"

text \<open>Listing the machines runs into the timeout; every other call exits with 0.\<close>

definition world_listing_times_out :: world where
  "world_listing_times_out =
     \<lparr>respond = (\<lambda>t c. if verb_is ''list'' c then TimedOut else Exited 0 [] []),
      path_exists = (\<lambda>t p. False),
      path_dirname = posix_dirname, path_join = posix_join\<rparr>"

definition action_args :: "action \<Rightarrow> args" where
  "action_args act =
     \<lparr>args_action = act, args_vm_name = ''web-01'', args_gui = False,
      args_force = False, args_user = ''alice'', args_password = None,
      args_text = ''hello''\<rparr>"

text \<open>Every call exits with 0 and prints the given text.\<close>

definition world_answering :: "string \<Rightarrow> world" where
  "world_answering out =
     \<lparr>respond = (\<lambda>t c. Exited 0 out []), path_exists = (\<lambda>t p. False),
      path_dirname = posix_dirname, path_join = posix_join\<rparr>"

text \<open>A listing with two machines, an empty line and a line without quotes.\<close>

definition listing_example :: string where
  "listing_example =
     [dquote] @ ''web-01'' @ [dquote] @ '' {u1}'' @ [newline] @ [newline]
       @ ''no machine here'' @ [newline]
       @ [dquote] @ ''db-01'' @ [dquote] @ '' {u2}'' @ [newline]"

text \<open>A listing whose one line has a double quote that is never closed.\<close>

definition unclosed_quote_listing :: string where
  "unclosed_quote_listing = ''abc'' @ [dquote] @ ''def''"









section \<open>Properties\<close>

subsection \<open>Splitting and searching text\<close>

lemma py_in_iff: "py_in sub s \<longleftrightarrow> (\<exists>pre post. s = pre @ sub @ post)"
proof (induction s)
  case Nil
  then show ?case by auto
next
  case (Cons c cs)
  show ?case
  proof
    assume "py_in sub (c # cs)"
    then consider "prefix sub (c # cs)" | "py_in sub cs" by auto
    then show "\<exists>pre post. c # cs = pre @ sub @ post"
    proof cases
      case 1
      then obtain post where "c # cs = sub @ post" by (auto simp: prefix_def)
      then have "c # cs = [] @ sub @ post" by simp
      then show ?thesis by blast
    next
      case 2
      with Cons.IH obtain pre post where "cs = pre @ sub @ post" by blast
      then have "c # cs = (c # pre) @ sub @ post" by simp
      then show ?thesis by blast
    qed
  next
    assume "\<exists>pre post. c # cs = pre @ sub @ post"
    then obtain pre post where eq: "c # cs = pre @ sub @ post" by blast
    show "py_in sub (c # cs)"
    proof (cases pre)
      case Nil
      with eq have "prefix sub (c # cs)" by (simp add: prefix_def)
      then show ?thesis by simp
    next
      case (Cons x pre')
      with eq have "cs = pre' @ sub @ post" by simp
      with Cons.IH have "py_in sub cs" by blast
      then show ?thesis by simp
    qed
  qed
qed

lemma py_split_not_in: "\<not> py_in sep s \<Longrightarrow> py_split sep s = [s]"
  by (induction s) auto

lemma prefix_shorter: "prefix xs (ys @ zs) \<Longrightarrow> length xs \<le> length ys \<Longrightarrow> prefix xs ys"
  by (rule prefix_length_prefix [where xs = "ys @ zs"]) simp_all

lemma py_split_first:
  assumes "sep \<noteq> []" and "\<not> py_in sep (pre @ butlast sep)"
  shows "py_split sep (pre @ sep @ rest) = pre # py_split sep rest"
  using assms(2)
proof (induction pre)
  case Nil
  from assms(1) obtain c cs where sep: "sep = c # cs" by (cases sep) auto
  have "py_split sep (sep @ rest) = [] # py_split sep (drop (length sep) (sep @ rest))"
    unfolding sep by simp
  then show ?case by simp
next
  case (Cons x pre)
  have notpre: "\<not> prefix sep (x # pre @ butlast sep)" and notin: "\<not> py_in sep (pre @ butlast sep)"
    using Cons.prems by auto
  have "\<not> prefix sep (x # pre @ sep @ rest)"
  proof
    assume "prefix sep (x # pre @ sep @ rest)"
    moreover have "x # pre @ sep @ rest = (x # pre @ butlast sep) @ (last sep # rest)"
      using assms(1) by simp
    moreover have "length sep \<le> length (x # pre @ butlast sep)"
      by simp
    ultimately have "prefix sep (x # pre @ butlast sep)"
      using prefix_shorter by metis
    with notpre show False by contradiction
  qed
  then show ?case using Cons.IH [OF notin] by simp
qed

lemma py_in_single: "py_in [c] s \<longleftrightarrow> c \<in> set s"
  by (induction s) auto

lemma in_set_dropWhile: "c \<in> set s \<Longrightarrow> \<not> P c \<Longrightarrow> c \<in> set (dropWhile P s)"
  by (induction s) auto

lemma py_strip_keeps: "c \<in> set s \<Longrightarrow> \<not> isspace c \<Longrightarrow> c \<in> set (py_strip s)"
  by (simp add: py_strip_def in_set_dropWhile)

lemma py_split_single_hd:
  "\<exists>rest. py_split [c] s = takeWhile (\<lambda>x. x \<noteq> c) s # rest"
  by (induction s) auto

lemma index1_Cons_hd: "index1 ((x # piece) # pieces) = index1 (piece # pieces)"
  by (cases pieces) simp_all

lemma index1_split_single:
  "c \<in> set s \<Longrightarrow>
   index1 (py_split [c] s) = Inr (takeWhile (\<lambda>x. x \<noteq> c) (drop 1 (dropWhile (\<lambda>x. x \<noteq> c) s)))"
proof (induction s)
  case Nil
  then show ?case by simp
next
  case (Cons x xs)
  show ?case
  proof (cases "x = c")
    case True
    obtain rest where "py_split [c] xs = takeWhile (\<lambda>x. x \<noteq> c) xs # rest"
      using py_split_single_hd by blast
    with True show ?thesis by simp
  next
    case False
    with Cons.prems have "c \<in> set xs" by simp
    from Cons.IH [OF this] False show ?thesis
      by (cases "py_split [c] xs") (simp_all add: index1_Cons_hd)
  qed
qed

lemma dquote_not_space: "\<not> isspace dquote"
  by (simp add: isspace_def)

lemma collect_vm_names_eq:
  "collect_vm_names ls acc =
     Inr (acc @ map first_quoted (filter (\<lambda>line. dquote \<in> set line) ls))"
proof (induction ls arbitrary: acc)
  case Nil
  then show ?case by simp
next
  case (Cons line ls)
  show ?case
  proof (cases "dquote \<in> set line")
    case True
    then have "py_strip line \<noteq> []"
      using py_strip_keeps [OF True dquote_not_space] by auto
    with True show ?thesis
      by (simp add: py_in_single index1_split_single first_quoted_def Cons.IH)
  next
    case False
    then show ?thesis by (simp add: py_in_single Cons.IH)
  qed
qed

lemma dropWhile_upto: "c \<notin> set pre \<Longrightarrow> dropWhile (\<lambda>x. x \<noteq> c) (pre @ c # rest) = c # rest"
  by (induction pre) auto

lemma takeWhile_upto: "c \<notin> set name \<Longrightarrow> takeWhile (\<lambda>x. x \<noteq> c) (name @ c # rest) = name"
  by (induction name) auto

lemma first_quoted_token:
  assumes "dquote \<notin> set pre" and "dquote \<notin> set name"
  shows "first_quoted (pre @ dquote # name @ dquote # rest) = name"
  using assms by (simp add: first_quoted_def dropWhile_upto takeWhile_upto)


subsection \<open>Traces of the single operations\<close>

lemma broadcast_eq:
  "vboxmanage_path self = Some p \<Longrightarrow> p \<noteq> [] \<Longrightarrow>
   broadcast_message_to_vm w self vm_name user message t =
     (exited_zero (respond w t (broadcast_cmd p vm_name user message)),
      t @ [broadcast_cmd p vm_name user message])"
  by (simp add: broadcast_message_to_vm_def subprocess_run_def split: outcome.splits)

lemma stop_eq:
  "vboxmanage_path self = Some p \<Longrightarrow> p \<noteq> [] \<Longrightarrow>
   stop_vm w self vm_name graceful t =
     (exited_zero
        (respond w (t @ [broadcast_cmd p vm_name ''nhu'' ''System will be shutdown''])
           (stop_cmd p vm_name graceful)),
      t @ [broadcast_cmd p vm_name ''nhu'' ''System will be shutdown'',
           stop_cmd p vm_name graceful])"
  by (simp add: stop_vm_def broadcast_eq subprocess_run_def split: outcome.splits)

lemma start_eq:
  "vboxmanage_path self = Some p \<Longrightarrow> p \<noteq> [] \<Longrightarrow>
   start_vm w self vm_name headless t =
     (exited_zero (respond w t (start_cmd p vm_name headless)),
      t @ [start_cmd p vm_name headless])"
  by (simp add: start_vm_def subprocess_run_def split: outcome.splits)

lemma get_vm_ip_trace:
  "vboxmanage_path self = Some p \<Longrightarrow> p \<noteq> [] \<Longrightarrow>
   snd (get_vm_ip w self vm_name t) = t @ [ip_cmd p vm_name]"
  by (simp add: get_vm_ip_def subprocess_run_def split: outcome.splits sum.splits)

lemma get_vm_status_trace:
  "vboxmanage_path self = Some p \<Longrightarrow> p \<noteq> [] \<Longrightarrow>
   snd (get_vm_status w self vm_name t) = t @ [info_cmd p vm_name]"
  by (simp add: get_vm_status_def subprocess_run_def split: outcome.splits sum.splits)

lemma open_terminal_trace:
  "vboxmanage_path self = Some p \<Longrightarrow> p \<noteq> [] \<Longrightarrow>
   snd (open_terminal w self vm_name user t) =
     t @ ip_cmd p vm_name #
       (if truthy (fst (get_vm_ip w self vm_name t))
        then [Popen (wt_cmd vm_name user (the (fst (get_vm_ip w self vm_name t))))] else [])"
  using get_vm_ip_trace [of self p w vm_name t]
  by (cases "get_vm_ip w self vm_name t")
    (simp add: open_terminal_def subprocess_Popen_def split: outcome.splits)

lemma send_message_trace:
  "vboxmanage_path self = Some p \<Longrightarrow> p \<noteq> [] \<Longrightarrow>
   snd (send_message_to_vm w self vm_name user password message t) =
     t @ ip_cmd p vm_name #
       (if truthy (fst (get_vm_ip w self vm_name t))
        then [ssh_cmd user (the (fst (get_vm_ip w self vm_name t))) password message] else [])"
  using get_vm_ip_trace [of self p w vm_name t]
  by (cases "get_vm_ip w self vm_name t")
    (simp add: send_message_to_vm_def subprocess_run_def split: outcome.splits)

subsection \<open>The example environments\<close>

lemma located_manager_path: "vboxmanage_path located_manager = Some ''VBoxManage''"
  by (simp add: located_manager_def)

lemma no_guest_tools_status_off:
  "fst (get_vm_status world_no_guest_tools located_manager ''web-01'' []) = Some ''poweroff''"
  by (simp add: get_vm_status_def located_manager_path subprocess_run_def
      world_no_guest_tools_def info_cmd_def vmstate_line_def py_strip_def isspace_def
      py_strip_chars_def)

lemma no_guest_tools_status_on:
  "list_ex (verb_is ''startvm'') u \<Longrightarrow>
   fst (get_vm_status world_no_guest_tools located_manager ''web-01'' u) = Some ''running''"
  by (simp add: get_vm_status_def located_manager_path subprocess_run_def
      world_no_guest_tools_def info_cmd_def vmstate_line_def py_strip_def isspace_def
      py_strip_chars_def)

lemma no_guest_tools_ip:
  "fst (get_vm_ip world_no_guest_tools located_manager ''web-01'' u) = Some ''10.0.2.15''"
  by (simp add: get_vm_ip_def located_manager_path subprocess_run_def
      world_no_guest_tools_def ip_cmd_def parse_guest_ip_def py_strip_def isspace_def)

lemma nothing_installed_status:
  "fst (get_vm_status world_nothing_installed located_manager ''web-01'' u) = None"
  by (simp add: get_vm_status_def located_manager_path subprocess_run_def
      world_nothing_installed_def)

lemma startvm_in_trace:
  "list_ex (verb_is ''startvm'')
     [info_cmd ''VBoxManage'' ''web-01'', start_cmd ''VBoxManage'' ''web-01'' True]"
  "list_ex (verb_is ''startvm'') [start_cmd ''VBoxManage'' ''web-01'' False]"
  "list_ex (verb_is ''startvm'')
     [start_cmd ''VBoxManage'' ''web-01'' False, info_cmd ''VBoxManage'' ''web-01'']"
  by (simp_all add: start_cmd_def)

subsection \<open>Stopping a machine\<close>

text \<open>
  Claim C2. With the control binary located, \<open>stop_vm\<close> makes exactly two calls, for
  every machine name and graceful flag: first the in-guest broadcast warning, then the
  power command. The result of \<open>stop_vm\<close> is decided by the answer to the power
  command alone: whatever the warning returns (it returns \<open>False\<close> unless its process
  exits with 0), the power command is issued, and two environments that answer the
  power command alike give the same result.
\<close>

theorem stop_vm_warns_then_stops:
  assumes "vboxmanage_path self = Some p" and "p \<noteq> []"
  shows "snd (stop_vm w self vm_name graceful t) =
           t @ [broadcast_cmd p vm_name ''nhu'' ''System will be shutdown'',
                stop_cmd p vm_name graceful]
       \<and> fst (stop_vm w self vm_name graceful t) =
           exited_zero
             (respond w (t @ [broadcast_cmd p vm_name ''nhu'' ''System will be shutdown''])
                (stop_cmd p vm_name graceful))
       \<and> fst (broadcast_message_to_vm w self vm_name ''nhu'' ''System will be shutdown'' t) =
           exited_zero (respond w t (broadcast_cmd p vm_name ''nhu'' ''System will be shutdown''))
       \<and> (\<forall>w'. respond w' (t @ [broadcast_cmd p vm_name ''nhu'' ''System will be shutdown''])
                   (stop_cmd p vm_name graceful)
                 = respond w (t @ [broadcast_cmd p vm_name ''nhu'' ''System will be shutdown''])
                     (stop_cmd p vm_name graceful)
              \<longrightarrow> stop_vm w' self vm_name graceful t = stop_vm w self vm_name graceful t)"
  using assms by (simp add: stop_eq broadcast_eq)

text \<open>
  In the environment without guest tooling the warning fails, and the machine is
  stopped all the same.
\<close>

theorem stop_vm_warns_then_stops_witness:
  "vboxmanage_path located_manager = Some ''VBoxManage''
   \<and> fst (broadcast_message_to_vm world_no_guest_tools located_manager ''web-01''
            ''nhu'' ''System will be shutdown'' []) = False
   \<and> stop_vm world_no_guest_tools located_manager ''web-01'' True [] =
       (True,
        [broadcast_cmd ''VBoxManage'' ''web-01'' ''nhu'' ''System will be shutdown'',
         stop_cmd ''VBoxManage'' ''web-01'' True])"
proof -
  have located: "vboxmanage_path located_manager = Some ''VBoxManage''"
    by (simp add: located_manager_def)
  have nonempty: "''VBoxManage'' \<noteq> []"
    by simp
  show ?thesis
    using stop_vm_warns_then_stops [OF located nonempty,
        of world_no_guest_tools "''web-01''" True "[]"] located
    by (simp add: prod_eq_iff world_no_guest_tools_def broadcast_cmd_def stop_cmd_def)
qed

text \<open>
  Claim C10. The warning that precedes a stop names the user \<open>nhu\<close> and carries the text
  \<open>System will be shutdown\<close>, for every machine name and graceful flag, and whatever
  user, text or password the command line of a \<open>stop\<close> action supplies.
\<close>

theorem stop_warning_is_fixed:
  assumes "vboxmanage_path self = Some p" and "p \<noteq> []" and "args_action a = Stop"
  shows "take 1 (drop (length t) (snd (stop_vm w self vm_name graceful t))) =
           [Run [p, ''guestcontrol'', vm_name, ''--username'', ''nhu'',
                 ''run'', ''--exe'', ''/usr/bin/wall'', ''--'', ''wall'',
                 ''System will be shutdown''] None 30]
       \<and> snd (run_action w self a t) =
           t @ [Run [p, ''guestcontrol'', args_vm_name a, ''--username'', ''nhu'',
                     ''run'', ''--exe'', ''/usr/bin/wall'', ''--'', ''wall'',
                     ''System will be shutdown''] None 30,
                stop_cmd p (args_vm_name a) (\<not> args_force a)]"
  using assms by (simp add: run_action_def stop_eq broadcast_cmd_def)

theorem stop_warning_is_fixed_witness:
  "snd (run_action world_no_guest_tools located_manager
          \<lparr>args_action = Stop, args_vm_name = ''web-01'', args_gui = False,
           args_force = True, args_user = ''alice'', args_password = Some ''secret'',
           args_text = ''going down''\<rparr> []) =
     [Run [''VBoxManage'', ''guestcontrol'', ''web-01'', ''--username'', ''nhu'',
           ''run'', ''--exe'', ''/usr/bin/wall'', ''--'', ''wall'',
           ''System will be shutdown''] None 30,
      Run [''VBoxManage'', ''controlvm'', ''web-01'', ''poweroff''] None 30]"
proof -
  have located: "vboxmanage_path located_manager = Some ''VBoxManage''"
    by (simp add: located_manager_def)
  have nonempty: "''VBoxManage'' \<noteq> []"
    by simp
  show ?thesis
    using stop_warning_is_fixed [OF located nonempty,
        of "\<lparr>args_action = Stop, args_vm_name = ''web-01'', args_gui = False,
           args_force = True, args_user = ''alice'', args_password = Some ''secret'',
           args_text = ''going down''\<rparr>" "[]" world_no_guest_tools]
    by (simp add: stop_cmd_def)
qed

subsection \<open>Degraded mode\<close>

text \<open>
  Claim C9. When no binary was located, each operation of the manager (list, start,
  stop, status, ip, install guest additions, broadcast, ssh message, open terminal)
  returns its failure value and leaves the trace as it was: no external call is made.
\<close>

theorem degraded_mode_makes_no_call:
  assumes "\<not> truthy (vboxmanage_path self)"
  shows "list_vms w self t = ([], t)
       \<and> start_vm w self vm_name headless t = (False, t)
       \<and> stop_vm w self vm_name graceful t = (False, t)
       \<and> get_vm_status w self vm_name t = (None, t)
       \<and> get_vm_ip w self vm_name t = (None, t)
       \<and> install_guest_additions w self vm_name t = (False, t)
       \<and> broadcast_message_to_vm w self vm_name user message t = (False, t)
       \<and> send_message_to_vm w self vm_name user password message t = (False, t)
       \<and> open_terminal w self vm_name user t = (False, t)"
  using assms
  by (simp add: list_vms_def start_vm_def stop_vm_def get_vm_status_def get_vm_ip_def
      install_guest_additions_def broadcast_message_to_vm_def send_message_to_vm_def
      open_terminal_def)

text \<open>
  Where nothing is installed the search for the binary ends with \<^verbatim>\<open>None\<close> after the one
  probe of the PATH name, and the operations of the manager built there add no call.
\<close>

theorem degraded_mode_makes_no_call_witness:
  "VMManager_init world_nothing_installed [] =
     (\<lparr>vboxmanage_path = None\<rparr>, [version_cmd ''VBoxManage''])
   \<and> list_vms world_nothing_installed \<lparr>vboxmanage_path = None\<rparr>
        [version_cmd ''VBoxManage''] = ([], [version_cmd ''VBoxManage''])
   \<and> stop_vm world_nothing_installed \<lparr>vboxmanage_path = None\<rparr> ''web-01'' True
        [version_cmd ''VBoxManage''] = (False, [version_cmd ''VBoxManage''])
   \<and> install_guest_additions world_nothing_installed \<lparr>vboxmanage_path = None\<rparr> ''web-01''
        [version_cmd ''VBoxManage''] = (False, [version_cmd ''VBoxManage''])
   \<and> open_terminal world_nothing_installed \<lparr>vboxmanage_path = None\<rparr> ''web-01'' ''alice''
        [version_cmd ''VBoxManage''] = (False, [version_cmd ''VBoxManage''])"
proof -
  have absent: "\<not> truthy (vboxmanage_path \<lparr>vboxmanage_path = None\<rparr>)"
    by simp
  have search: "VMManager_init world_nothing_installed [] =
     (\<lparr>vboxmanage_path = None\<rparr>, [version_cmd ''VBoxManage''])"
    by (simp add: VMManager_init_def find_vboxmanage_def probe_specific_path_def
        probe_system_path_def common_paths_def subprocess_run_def
        world_nothing_installed_def)
  show ?thesis
    using degraded_mode_makes_no_call [OF absent, of world_nothing_installed
        "[version_cmd ''VBoxManage'']" "''web-01''" _ True "''alice''"] search
    by simp
qed

subsection \<open>Message with fallback\<close>

text \<open>The \<open>message\<close> branch of \<open>main\<close>, with the broadcast replaced by its effect.\<close>

lemma message_action_eq:
  assumes "vboxmanage_path self = Some p" and "p \<noteq> []" and "args_action a = Message"
  shows "run_action w self a t =
    (if exited_zero (respond w t (broadcast_cmd p (args_vm_name a) (args_user a) (args_text a)))
     then (0, t @ [broadcast_cmd p (args_vm_name a) (args_user a) (args_text a)])
     else if truthy (args_password a)
     then (if fst (send_message_to_vm w self (args_vm_name a) (args_user a) (args_password a)
                     (args_text a)
                     (t @ [broadcast_cmd p (args_vm_name a) (args_user a) (args_text a)]))
           then 0 else 1,
           snd (send_message_to_vm w self (args_vm_name a) (args_user a) (args_password a)
                     (args_text a)
                     (t @ [broadcast_cmd p (args_vm_name a) (args_user a) (args_text a)])))
     else (1, t @ [broadcast_cmd p (args_vm_name a) (args_user a) (args_text a)]))"
  using assms by (simp add: run_action_def broadcast_eq split: prod.splits)

text \<open>
  Claim C1. In the \<open>message\<close> action, for every machine name, user, text and optional
  password: the first call is the guest-tooling broadcast, made exactly once. The SSH
  fallback \<open>send_message_to_vm\<close> runs if and only if the broadcast failed and a password
  is present, and then it runs once: the rest of the trace is the trace of that one
  run, its address query occurs once if the fallback runs and not at all otherwise,
  and at most one \<^verbatim>\<open>ssh\<close> call is made. A failed broadcast without a password ends with
  exit status 1 and no call after the broadcast. A password is present when it is
  neither \<^verbatim>\<open>None\<close> nor empty, which is how the source tests it.
\<close>

theorem message_falls_back_to_ssh_once:
  assumes "vboxmanage_path self = Some p" and "p \<noteq> []" and "args_action a = Message"
  shows "let bc = broadcast_cmd p (args_vm_name a) (args_user a) (args_text a);
             failed = (\<not> exited_zero (respond w t bc));
             fallback = (failed \<and> truthy (args_password a));
             ssh = send_message_to_vm w self (args_vm_name a) (args_user a) (args_password a)
                     (args_text a) (t @ [bc]);
             res = run_action w self a t;
             new = drop (length t) (snd res)
         in take 1 new = [bc]
          \<and> calls_of bc new = 1
          \<and> snd res = (if fallback then snd ssh else t @ [bc])
          \<and> fst res = (if fallback then (if fst ssh then 0 else 1) else if failed then 1 else 0)
          \<and> calls_of (ip_cmd p (args_vm_name a)) new = (if fallback then 1 else 0)
          \<and> length (filter is_ssh new) =
               (if fallback \<and> truthy (fst (get_vm_ip w self (args_vm_name a) (t @ [bc])))
                then 1 else 0)
          \<and> length (filter is_ssh new) \<le> 1
          \<and> (failed \<and> \<not> truthy (args_password a) \<longrightarrow> res = (1, t @ [bc]))"
proof -
  let ?bc = "broadcast_cmd p (args_vm_name a) (args_user a) (args_text a)"
  have tr: "snd (send_message_to_vm w self (args_vm_name a) (args_user a) (args_password a)
                     (args_text a) (t @ [?bc])) =
      (t @ [?bc]) @ ip_cmd p (args_vm_name a) #
       (if truthy (fst (get_vm_ip w self (args_vm_name a) (t @ [?bc])))
        then [ssh_cmd (args_user a) (the (fst (get_vm_ip w self (args_vm_name a) (t @ [?bc]))))
                (args_password a) (args_text a)] else [])"
    by (rule send_message_trace [OF assms(1,2)])
  have ne1: "ip_cmd p (args_vm_name a) \<noteq> ?bc"
    by (simp add: ip_cmd_def broadcast_cmd_def)
  have ne2: "ssh_cmd u i pw m \<noteq> ?bc" for u i pw m
    by (simp add: ssh_cmd_def broadcast_cmd_def)
  have ne3: "ssh_cmd u i pw m \<noteq> ip_cmd p (args_vm_name a)" for u i pw m
    by (simp add: ssh_cmd_def ip_cmd_def)
  have s1: "\<not> is_ssh ?bc"
    by (simp add: broadcast_cmd_def)
  have s2: "\<not> is_ssh (ip_cmd p (args_vm_name a))"
    by (simp add: ip_cmd_def)
  have s3: "is_ssh (ssh_cmd u i pw m)" for u i pw m
    by (simp add: ssh_cmd_def)
  show ?thesis
    unfolding Let_def message_action_eq [OF assms]
    using ne1 ne2 ne3 s1 s2 s3 by (simp add: tr calls_of_def)
qed

text \<open>
  Without guest tooling: with a password the fallback makes its two calls and the
  action succeeds; without one, and with an empty one, the action fails after the
  broadcast.
\<close>

theorem message_falls_back_to_ssh_once_witness:
  "run_action world_no_guest_tools located_manager (message_args (Some ''secret'')) [] =
     (0, [broadcast_cmd ''VBoxManage'' ''web-01'' ''alice'' ''hello'',
          ip_cmd ''VBoxManage'' ''web-01'',
          ssh_cmd ''alice'' ''10.0.2.15'' (Some ''secret'') ''hello''])
   \<and> run_action world_no_guest_tools located_manager (message_args None) [] =
     (1, [broadcast_cmd ''VBoxManage'' ''web-01'' ''alice'' ''hello''])
   \<and> run_action world_no_guest_tools located_manager (message_args (Some [])) [] =
     (1, [broadcast_cmd ''VBoxManage'' ''web-01'' ''alice'' ''hello''])"
proof -
  have located: "vboxmanage_path located_manager = Some ''VBoxManage''"
    by (simp add: located_manager_def)
  have nonempty: "''VBoxManage'' \<noteq> []"
    by simp
  have act: "args_action (message_args pw) = Message" for pw
    by (simp add: message_args_def)
  have bc: "respond world_no_guest_tools []
              (broadcast_cmd ''VBoxManage'' ''web-01'' ''alice'' ''hello'') =
            Exited 1 [] ''guest additions missing''"
    by (simp add: world_no_guest_tools_def broadcast_cmd_def)
  have ip: "get_vm_ip world_no_guest_tools located_manager ''web-01''
              [broadcast_cmd ''VBoxManage'' ''web-01'' ''alice'' ''hello''] =
            (Some ''10.0.2.15'',
             [broadcast_cmd ''VBoxManage'' ''web-01'' ''alice'' ''hello'',
              ip_cmd ''VBoxManage'' ''web-01''])"
    by (simp add: get_vm_ip_def located subprocess_run_def world_no_guest_tools_def
        ip_cmd_def parse_guest_ip_def py_strip_def isspace_def)
  have ssh: "send_message_to_vm world_no_guest_tools located_manager ''web-01'' ''alice''
               (Some ''secret'') ''hello''
               [broadcast_cmd ''VBoxManage'' ''web-01'' ''alice'' ''hello''] =
             (True,
              [broadcast_cmd ''VBoxManage'' ''web-01'' ''alice'' ''hello'',
               ip_cmd ''VBoxManage'' ''web-01'',
               ssh_cmd ''alice'' ''10.0.2.15'' (Some ''secret'') ''hello''])"
    by (simp add: send_message_to_vm_def located ip subprocess_run_def)
       (simp add: world_no_guest_tools_def ssh_cmd_def)
  show ?thesis
    using message_falls_back_to_ssh_once [OF located nonempty act,
            of "Some ''secret''" world_no_guest_tools "[]"]
          message_falls_back_to_ssh_once [OF located nonempty act,
            of None world_no_guest_tools "[]"]
          message_falls_back_to_ssh_once [OF located nonempty act,
            of "Some []" world_no_guest_tools "[]"]
    by (simp add: Let_def prod_eq_iff bc ssh message_args_def)
qed

subsection \<open>Start and open a terminal\<close>

text \<open>The saga with the two status queries and the start replaced by their calls.\<close>

lemma start_and_open_eq:
  assumes "vboxmanage_path self = Some p" and "p \<noteq> []"
  shows "start_vm_and_open_a_terminal w self vm_name user t =
    (let t2 = (if fst (get_vm_status w self vm_name t) = Some ''running''
               then t @ [info_cmd p vm_name]
               else t @ [info_cmd p vm_name, start_cmd p vm_name True])
     in if fst (get_vm_status w self vm_name t2) = Some ''running''
        then (0, snd (open_terminal w self vm_name user (t2 @ [info_cmd p vm_name])))
        else (1, t2 @ [info_cmd p vm_name]))"
proof -
  let ?sq = "info_cmd p vm_name"
  obtain s1 where g1: "get_vm_status w self vm_name t = (s1, t @ [?sq])"
    using get_vm_status_trace [OF assms, of w vm_name t]
    by (cases "get_vm_status w self vm_name t") simp
  let ?t2 = "if s1 = Some ''running'' then t @ [?sq]
             else t @ [?sq, start_cmd p vm_name True]"
  obtain s2 where g2: "get_vm_status w self vm_name ?t2 = (s2, ?t2 @ [?sq])"
    using get_vm_status_trace [OF assms, of w vm_name ?t2]
    by (cases "get_vm_status w self vm_name ?t2") simp
  have step: "(if s1 \<noteq> Some ''running'' then snd (start_vm w self vm_name True (t @ [?sq]))
               else t @ [?sq]) = ?t2"
    by (simp add: start_eq [OF assms])
  show ?thesis
    unfolding start_vm_and_open_a_terminal_def g1 prod.case step g2 Let_def fst_conv
    by (simp split: prod.splits)
qed

text \<open>
  Claim C3. With the binary located, for every machine name and user: the saga's first
  call is the status query. A \<^verbatim>\<open>startvm\<close> call occurs if and only if that first status is
  not \<open>running\<close>, and it is the headless start, placed between the two status queries.
  The status is queried again in either case. If the second status is not \<open>running\<close> the
  saga returns its failure value 1 and makes no further call; if it is \<open>running\<close> the saga
  goes on with \<open>open_terminal\<close>, whose address query therefore occurs exactly in that
  case, and a terminal is spawned only then.
\<close>

theorem start_and_open_terminal_saga:
  assumes "vboxmanage_path self = Some p" and "p \<noteq> []"
  shows "let sq = info_cmd p vm_name;
             st = start_cmd p vm_name True;
             status = fst (get_vm_status w self vm_name t);
             t2 = (if status = Some ''running'' then t @ [sq] else t @ [sq, st]);
             status2 = fst (get_vm_status w self vm_name t2);
             t3 = t2 @ [sq];
             res = start_vm_and_open_a_terminal w self vm_name user t;
             new = drop (length t) (snd res)
         in take 1 new = [sq]
          \<and> list_ex (verb_is ''startvm'') new = (status \<noteq> Some ''running'')
          \<and> take (length t3) (snd res) = t3
          \<and> (status2 \<noteq> Some ''running'' \<longrightarrow> res = (1, t3))
          \<and> (status2 = Some ''running'' \<longrightarrow>
                res = (0, snd (open_terminal w self vm_name user t3)))
          \<and> (ip_cmd p vm_name \<in> set new) = (status2 = Some ''running'')
          \<and> list_ex is_Popen new =
               (status2 = Some ''running'' \<and> truthy (fst (get_vm_ip w self vm_name t3)))"
proof -
  have v1: "\<not> verb_is ''startvm'' (info_cmd p vm_name)"
    "\<not> verb_is ''startvm'' (ip_cmd p vm_name)"
    "verb_is ''startvm'' (start_cmd p vm_name True)"
    by (simp_all add: info_cmd_def ip_cmd_def start_cmd_def)
  have v2: "ip_cmd p vm_name \<noteq> info_cmd p vm_name"
    "ip_cmd p vm_name \<noteq> start_cmd p vm_name True"
    by (simp_all add: info_cmd_def ip_cmd_def start_cmd_def)
  have v3: "\<not> is_Popen (info_cmd p vm_name)" "\<not> is_Popen (ip_cmd p vm_name)"
    "\<not> is_Popen (start_cmd p vm_name True)"
    by (simp_all add: info_cmd_def ip_cmd_def start_cmd_def)
  show ?thesis
    unfolding Let_def start_and_open_eq [OF assms]
    using v1 v2 v3 by (simp add: open_terminal_trace [OF assms])
qed

text \<open>
  A stopped machine is started, found running and connected to; a machine found
  running is not started; where the binary cannot be run the saga stops after the
  second status query.
\<close>

theorem start_and_open_terminal_saga_witness:
  "start_vm_and_open_a_terminal world_no_guest_tools located_manager ''web-01'' ''alice'' [] =
     (0, [info_cmd ''VBoxManage'' ''web-01'',
          start_cmd ''VBoxManage'' ''web-01'' True,
          info_cmd ''VBoxManage'' ''web-01'',
          ip_cmd ''VBoxManage'' ''web-01'',
          Popen (wt_cmd ''web-01'' ''alice'' ''10.0.2.15'')])
   \<and> start_vm_and_open_a_terminal world_no_guest_tools located_manager ''web-01'' ''alice''
        [start_cmd ''VBoxManage'' ''web-01'' False] =
     (0, [start_cmd ''VBoxManage'' ''web-01'' False,
          info_cmd ''VBoxManage'' ''web-01'',
          info_cmd ''VBoxManage'' ''web-01'',
          ip_cmd ''VBoxManage'' ''web-01'',
          Popen (wt_cmd ''web-01'' ''alice'' ''10.0.2.15'')])
   \<and> start_vm_and_open_a_terminal world_nothing_installed located_manager ''web-01''
        ''alice'' [] =
     (1, [info_cmd ''VBoxManage'' ''web-01'',
          start_cmd ''VBoxManage'' ''web-01'' True,
          info_cmd ''VBoxManage'' ''web-01''])"
proof -
  have nonempty: "''VBoxManage'' \<noteq> []"
    by simp
  note located = located_manager_path
  show ?thesis
    using start_and_open_terminal_saga [OF located nonempty,
            where w = world_no_guest_tools and vm_name = "''web-01''" and t = "[]"
              and user = "''alice''"]
          start_and_open_terminal_saga [OF located nonempty,
            where w = world_no_guest_tools and vm_name = "''web-01''"
              and t = "[start_cmd ''VBoxManage'' ''web-01'' False]" and user = "''alice''"]
          start_and_open_terminal_saga [OF located nonempty,
            where w = world_nothing_installed and vm_name = "''web-01''" and t = "[]"
              and user = "''alice''"]
    by (simp add: Let_def no_guest_tools_status_off
        no_guest_tools_status_on [OF startvm_in_trace(1)]
        no_guest_tools_status_on [OF startvm_in_trace(2)]
        no_guest_tools_status_on [OF startvm_in_trace(3)]
        nothing_installed_status open_terminal_trace [OF located nonempty] no_guest_tools_ip)
qed

subsection \<open>Locating the binary\<close>

text \<open>
  A probe of a common installation path that exits with a non-zero code or times out
  only drops that candidate, and so does such a probe of the fixed path.
\<close>

lemma probe_common_paths_skips_failed:
  assumes "path_exists w t path"
    and "respond w t (version_cmd path) = TimedOut
         \<or> (\<exists>rc out err. rc \<noteq> 0 \<and> respond w t (version_cmd path) = Exited rc out err)"
  shows "probe_common_paths w (path # rest) t =
           probe_common_paths w rest (t @ [version_cmd path])"
  using assms by (auto simp: subprocess_run_def)

lemma probe_specific_path_skips_failed:
  assumes "respond w t (version_cmd windows_path) = TimedOut
         \<or> (\<exists>rc out err. rc \<noteq> 0 \<and> respond w t (version_cmd windows_path) = Exited rc out err)"
  shows "fst (probe_specific_path w t) = Inr None"
  using assms by (auto simp: probe_specific_path_def subprocess_run_def)

text \<open>
  The probe of the PATH name catches a non-zero exit and a missing file, but a
  timeout leaves the stage as an exception.
\<close>

lemma probe_system_path_timeout:
  assumes "respond w t (version_cmd ''VBoxManage'') = TimedOut"
  shows "probe_system_path w t = (Inl TimeoutExpired, t @ [version_cmd ''VBoxManage''])"
  using assms by (simp add: probe_system_path_def subprocess_run_def)

text \<open>
  Claim C5 asks that a probe that times out only marks its own candidate unusable.
  Where the probe of the PATH name times out, the search ends at once with \<^verbatim>\<open>None\<close>:
  the common installation paths are never probed, although the search over them,
  started from the same trace, finds the binary in \<^verbatim>\<open>/usr/bin\<close>.
\<close>

theorem path_probe_timeout_ends_search:
  "find_vboxmanage world_path_probe_hangs [] = (None, [version_cmd ''VBoxManage''])
   \<and> probe_common_paths world_path_probe_hangs common_paths [version_cmd ''VBoxManage''] =
       (Inr (Some ''/usr/bin/VBoxManage''),
        [version_cmd ''VBoxManage'', version_cmd ''/usr/bin/VBoxManage''])"
  by (simp add: find_vboxmanage_def probe_specific_path_def probe_system_path_def
      common_paths_def subprocess_run_def world_path_probe_hangs_def version_cmd_def
      windows_path_def windows_x86_path_def)

subsection \<open>Process exit status\<close>

text \<open>
  Claim C7 says that every action exits with 0 on success and with 1 on any failure.
  The \<open>list\<close> action has no failure exit: when the listing command times out,
  \<open>list_vms\<close> returns the empty list and the process still exits with 0.
\<close>

theorem listing_failure_exits_zero:
  "\<not> exited_zero (respond world_listing_times_out [] (list_cmd ''VBoxManage''))
   \<and> list_vms world_listing_times_out located_manager [] = ([], [list_cmd ''VBoxManage''])
   \<and> run_action world_listing_times_out located_manager (action_args List) [] =
        (0, [list_cmd ''VBoxManage''])"
  by (simp add: run_action_def list_vms_def located_manager_def action_args_def
      subprocess_run_def world_listing_times_out_def list_cmd_def)

text \<open>
  Claim C7, amended. Without a located binary every action exits with 1. With it, the
  actions \<open>start\<close>, \<open>stop\<close>, \<open>guest\<close> and \<open>terminal\<close> exit with 0 exactly when their
  operation returns \<open>True\<close>, \<open>ip\<close> and \<open>status\<close> exactly when theirs returns a value,
  \<open>message\<close> exactly when the broadcast or, with a password, the SSH fallback succeeds;
  \<open>list\<close> always exits with 0. The \<open>svo\<close> action is not covered.
\<close>

theorem exit_status_by_action:
  "(\<not> truthy (vboxmanage_path m) \<longrightarrow> fst (run_action w m a t) = 1)
   \<and> (truthy (vboxmanage_path m) \<longrightarrow>
        (args_action a = Start \<longrightarrow> fst (run_action w m a t) =
           (if fst (start_vm w m (args_vm_name a) (\<not> args_gui a) t) then 0 else 1))
      \<and> (args_action a = Stop \<longrightarrow> fst (run_action w m a t) =
           (if fst (stop_vm w m (args_vm_name a) (\<not> args_force a) t) then 0 else 1))
      \<and> (args_action a = Ip \<longrightarrow> fst (run_action w m a t) =
           (if fst (get_vm_ip w m (args_vm_name a) t) = None then 1 else 0))
      \<and> (args_action a = Status \<longrightarrow> fst (run_action w m a t) =
           (if fst (get_vm_status w m (args_vm_name a) t) = None then 1 else 0))
      \<and> (args_action a = Guest \<longrightarrow> fst (run_action w m a t) =
           (if fst (install_guest_additions w m (args_vm_name a) t) then 0 else 1))
      \<and> (args_action a = Terminal \<longrightarrow> fst (run_action w m a t) =
           (if fst (open_terminal w m (args_vm_name a) (args_user a) t) then 0 else 1))
      \<and> (args_action a = Message \<longrightarrow> fst (run_action w m a t) =
           (if fst (broadcast_message_to_vm w m (args_vm_name a) (args_user a) (args_text a) t)
               \<or> (truthy (args_password a)
                   \<and> fst (send_message_to_vm w m (args_vm_name a) (args_user a)
                            (args_password a) (args_text a)
                            (snd (broadcast_message_to_vm w m (args_vm_name a) (args_user a)
                                    (args_text a) t))))
            then 0 else 1))
      \<and> (args_action a = List \<longrightarrow> fst (run_action w m a t) = 0))"
  by (simp add: run_action_def split: prod.splits)

text \<open>
  A stop that succeeds, a status query of a machine that is running, a status query
  that cannot run the binary, and any action without a located binary.
\<close>

theorem exit_status_by_action_witness:
  "fst (run_action world_no_guest_tools located_manager (action_args Stop) []) = 0
   \<and> fst (run_action world_no_guest_tools located_manager (action_args Status)
            [start_cmd ''VBoxManage'' ''web-01'' False]) = 0
   \<and> fst (run_action world_nothing_installed located_manager (action_args Status) []) = 1
   \<and> fst (run_action world_nothing_installed \<lparr>vboxmanage_path = None\<rparr>
            (action_args Stop) []) = 1"
proof -
  have nonempty: "''VBoxManage'' \<noteq> []"
    by simp
  have located: "truthy (vboxmanage_path located_manager)"
    by (simp add: located_manager_path)
  have stop: "fst (stop_vm world_no_guest_tools located_manager ''web-01'' True [])"
    by (simp add: stop_eq [OF located_manager_path nonempty] world_no_guest_tools_def
        stop_cmd_def)
  show ?thesis
    using exit_status_by_action [of located_manager world_no_guest_tools
            "action_args Stop" "[]"]
          exit_status_by_action [of located_manager world_no_guest_tools
            "action_args Status" "[start_cmd ''VBoxManage'' ''web-01'' False]"]
          exit_status_by_action [of located_manager world_nothing_installed
            "action_args Status" "[]"]
          exit_status_by_action [of "\<lparr>vboxmanage_path = None\<rparr>" world_nothing_installed
            "action_args Stop" "[]"]
    by (simp add: located action_args_def stop nothing_installed_status
        no_guest_tools_status_on [OF startvm_in_trace(2)])
qed

text \<open>
  The \<open>svo\<close> branch tests the saga's result with \<^verbatim>\<open>if not success\<close>, while the saga
  returns 0 where it reached the terminal step and 1 where the machine was not
  running: the exit status is 1 in the first case and 0 in the second.
\<close>

lemma svo_exit_status_inverted:
  assumes "truthy (vboxmanage_path m)" and "args_action a = Svo"
  shows "fst (run_action w m a t) =
     (if fst (start_vm_and_open_a_terminal w m (args_vm_name a) (args_user a) t) = 0
      then 1 else 0)"
  using assms by (simp add: run_action_def split: prod.splits)

lemma svo_success_exits_one:
  "run_action world_no_guest_tools located_manager (action_args Svo) [] =
     (1, [info_cmd ''VBoxManage'' ''web-01'',
          start_cmd ''VBoxManage'' ''web-01'' True,
          info_cmd ''VBoxManage'' ''web-01'',
          ip_cmd ''VBoxManage'' ''web-01'',
          Popen (wt_cmd ''web-01'' ''alice'' ''10.0.2.15'')])"
proof -
  have nonempty: "''VBoxManage'' \<noteq> []"
    by simp
  have saga: "start_vm_and_open_a_terminal world_no_guest_tools located_manager ''web-01''
      ''alice'' [] =
     (0, [info_cmd ''VBoxManage'' ''web-01'',
          start_cmd ''VBoxManage'' ''web-01'' True,
          info_cmd ''VBoxManage'' ''web-01'',
          ip_cmd ''VBoxManage'' ''web-01'',
          Popen (wt_cmd ''web-01'' ''alice'' ''10.0.2.15'')])"
    by (simp add: start_and_open_eq [OF located_manager_path nonempty]
        no_guest_tools_status_off no_guest_tools_status_on [OF startvm_in_trace(1)]
        open_terminal_trace [OF located_manager_path nonempty] no_guest_tools_ip)
  show ?thesis
    by (simp add: run_action_def located_manager_path action_args_def saga)
qed

lemma svo_failure_exits_zero:
  "run_action world_nothing_installed located_manager (action_args Svo) [] =
     (0, [info_cmd ''VBoxManage'' ''web-01'',
          start_cmd ''VBoxManage'' ''web-01'' True,
          info_cmd ''VBoxManage'' ''web-01''])"
proof -
  have nonempty: "''VBoxManage'' \<noteq> []"
    by simp
  have saga: "start_vm_and_open_a_terminal world_nothing_installed located_manager ''web-01''
      ''alice'' [] =
     (1, [info_cmd ''VBoxManage'' ''web-01'',
          start_cmd ''VBoxManage'' ''web-01'' True,
          info_cmd ''VBoxManage'' ''web-01''])"
    by (simp add: start_and_open_eq [OF located_manager_path nonempty]
        nothing_installed_status)
  show ?thesis
    by (simp add: run_action_def located_manager_path action_args_def saga)
qed

subsection \<open>Listing the machines\<close>

lemma has_quoted_token_dquote: "has_quoted_token line \<Longrightarrow> dquote \<in> set line"
proof -
  assume "has_quoted_token line"
  then have "filter (\<lambda>c. c = dquote) line \<noteq> []"
    by (auto simp: has_quoted_token_def)
  then show ?thesis
    by (auto simp: filter_empty_conv)
qed

text \<open>
  Claim C8 gives a name only to a line that contains a quoted token and skips the
  unquoted lines. The line \<open>abc"def\<close> has one double quote and no quoted token, and the
  specification's parser gives it no name; \<open>list_vms\<close> tests for the double-quote
  character alone and returns the name \<open>def\<close>.
\<close>

theorem unclosed_quote_is_listed:
  "\<not> has_quoted_token unclosed_quote_listing
   \<and> parse_vm_list_spec unclosed_quote_listing = []
   \<and> list_vms (world_answering unclosed_quote_listing) located_manager [] =
       ([''def''], [list_cmd ''VBoxManage''])"
proof -
  have "list_vms (world_answering unclosed_quote_listing) located_manager [] =
      (names_of_quote_lines unclosed_quote_listing, [list_cmd ''VBoxManage''])"
    by (simp add: list_vms_def located_manager_path subprocess_run_def world_answering_def
        collect_vm_names_eq names_of_quote_lines_def)
  moreover have "names_of_quote_lines unclosed_quote_listing = [''def'']"
    by (simp add: names_of_quote_lines_def unclosed_quote_listing_def py_strip_def
        isspace_def first_quoted_def)
  moreover have "\<not> has_quoted_token unclosed_quote_listing"
    by (simp add: has_quoted_token_def unclosed_quote_listing_def)
  moreover have "parse_vm_list_spec unclosed_quote_listing = []"
    by (simp add: parse_vm_list_spec_def has_quoted_token_def unclosed_quote_listing_def
        py_strip_def isspace_def)
  ultimately show ?thesis
    by simp
qed

text \<open>
  Claim C8, amended. With the binary located: when the listing command exits with 0,
  \<open>list_vms\<close> returns one name for each line of the output that has a double-quote
  character, in the order of the lines; the name is the text after the first double
  quote up to the next double quote or, when the quote is never closed, to the end of
  the line. The lines without a double quote (blank ones among them) give nothing. For a
  line \<open>pre"name"rest\<close> with no quote in \<open>pre\<close> and \<open>name\<close> the name is \<open>name\<close>, and on an
  output in which every line with a double quote contains a quoted token the result is
  that of the specification's parser. When the command exits with another code, times
  out or cannot be run, \<open>list_vms\<close> returns the empty list.
\<close>

theorem list_vms_parses_listing:
  assumes "vboxmanage_path self = Some p" and "p \<noteq> []"
  shows "(\<forall>out err. respond w t (list_cmd p) = Exited 0 out err \<longrightarrow>
            list_vms w self t = (names_of_quote_lines out, t @ [list_cmd p]))
       \<and> (\<not> exited_zero (respond w t (list_cmd p)) \<longrightarrow>
            list_vms w self t = ([], t @ [list_cmd p]))
       \<and> (\<forall>pre name rest. dquote \<notin> set pre \<and> dquote \<notin> set name \<longrightarrow>
            first_quoted (pre @ dquote # name @ dquote # rest) = name)
       \<and> (\<forall>line. dquote \<notin> set line \<longrightarrow>
            filter (\<lambda>line. dquote \<in> set line) [line] = [])
       \<and> (\<forall>out. list_all (\<lambda>line. dquote \<in> set line \<longrightarrow> has_quoted_token line)
                    (py_split [newline] (py_strip out)) \<longrightarrow>
            names_of_quote_lines out = parse_vm_list_spec out)"
proof (intro conjI allI impI)
  fix out err
  assume "respond w t (list_cmd p) = Exited 0 out err"
  then show "list_vms w self t = (names_of_quote_lines out, t @ [list_cmd p])"
    using assms
    by (simp add: list_vms_def subprocess_run_def collect_vm_names_eq names_of_quote_lines_def)
next
  assume "\<not> exited_zero (respond w t (list_cmd p))"
  then show "list_vms w self t = ([], t @ [list_cmd p])"
    using assms
    by (cases "respond w t (list_cmd p)") (simp_all add: list_vms_def subprocess_run_def)
next
  fix pre name rest
  assume "dquote \<notin> set pre \<and> dquote \<notin> set name"
  then show "first_quoted (pre @ dquote # name @ dquote # rest) = name"
    by (simp add: first_quoted_token)
next
  fix line :: string
  assume "dquote \<notin> set line"
  then show "filter (\<lambda>line. dquote \<in> set line) [line] = []"
    by simp
next
  fix out
  assume closed: "list_all (\<lambda>line. dquote \<in> set line \<longrightarrow> has_quoted_token line)
      (py_split [newline] (py_strip out))"
  have "filter (\<lambda>line. dquote \<in> set line) (py_split [newline] (py_strip out)) =
      filter has_quoted_token (py_split [newline] (py_strip out))"
  proof (rule filter_cong [OF refl])
    fix line
    assume "line \<in> set (py_split [newline] (py_strip out))"
    with closed have "dquote \<in> set line \<longrightarrow> has_quoted_token line"
      by (simp add: list_all_iff)
    then show "(dquote \<in> set line) = has_quoted_token line"
      using has_quoted_token_dquote by blast
  qed
  then show "names_of_quote_lines out = parse_vm_list_spec out"
    by (simp add: names_of_quote_lines_def parse_vm_list_spec_def)
qed

text \<open>
  The example listing gives its two names, as the specification's parser does; a listing
  that times out gives none.
\<close>

theorem list_vms_parses_listing_witness:
  "list_vms (world_answering listing_example) located_manager [] =
     ([''web-01'', ''db-01''], [list_cmd ''VBoxManage''])
   \<and> parse_vm_list_spec listing_example = [''web-01'', ''db-01'']
   \<and> list_vms world_listing_times_out located_manager [] = ([], [list_cmd ''VBoxManage''])"
proof -
  have nonempty: "''VBoxManage'' \<noteq> []"
    by simp
  have answer: "respond (world_answering listing_example) [] (list_cmd ''VBoxManage'') =
      Exited 0 listing_example []"
    by (simp add: world_answering_def)
  have timeout: "\<not> exited_zero (respond world_listing_times_out [] (list_cmd ''VBoxManage''))"
    by (simp add: world_listing_times_out_def list_cmd_def)
  have closed: "list_all (\<lambda>line. dquote \<in> set line \<longrightarrow> has_quoted_token line)
      (py_split [newline] (py_strip listing_example))"
    by (simp add: listing_example_def py_strip_def isspace_def has_quoted_token_def)
  have names: "names_of_quote_lines listing_example = [''web-01'', ''db-01'']"
    by (simp add: names_of_quote_lines_def listing_example_def py_strip_def isspace_def
        first_quoted_def)
  note listing = list_vms_parses_listing [OF located_manager_path nonempty,
      where w = "world_answering listing_example" and t = "[]"]
  note failing = list_vms_parses_listing [OF located_manager_path nonempty,
      where w = world_listing_times_out and t = "[]"]
  have "list_vms (world_answering listing_example) located_manager [] =
      (names_of_quote_lines listing_example, [list_cmd ''VBoxManage''])"
    using listing [THEN conjunct1, rule_format, OF answer] by simp
  moreover have "names_of_quote_lines listing_example = parse_vm_list_spec listing_example"
    by (rule listing [THEN conjunct2, THEN conjunct2, THEN conjunct2, THEN conjunct2,
          rule_format, OF closed])
  moreover have "list_vms world_listing_times_out located_manager [] =
      ([], [list_cmd ''VBoxManage''])"
    using failing [THEN conjunct2, THEN conjunct1, rule_format, OF timeout] by simp
  ultimately show ?thesis
    using names by simp
qed

subsection \<open>The address of a guest\<close>

text \<open>
  Claim C6 says that the marker \<open>No value set!\<close> gives an outcome distinct from a parse
  failure. \<open>get_vm_ip\<close> returns \<^verbatim>\<open>None\<close> for the marker and \<^verbatim>\<open>None\<close> for an output that has
  neither the marker nor \<open>Value: \<close>: the two results are the same value.
\<close>

theorem no_value_equals_parse_failure:
  "\<not> py_in ''No value set!'' ''unexpected output''
   \<and> \<not> py_in ''Value: '' ''unexpected output''
   \<and> fst (get_vm_ip (world_answering ''No value set!'') located_manager ''web-01'' []) = None
   \<and> fst (get_vm_ip (world_answering ''unexpected output'') located_manager ''web-01'' []) =
       fst (get_vm_ip (world_answering ''No value set!'') located_manager ''web-01'' [])"
  by (simp add: get_vm_ip_def located_manager_path subprocess_run_def world_answering_def
      parse_guest_ip_def py_strip_def isspace_def)

text \<open>
  Claim C6, amended. With the binary located and the query exiting with 0, on the
  stripped output: the marker \<open>No value set!\<close> gives \<^verbatim>\<open>None\<close>, and so does an output without
  \<open>Value: \<close>; otherwise the result is the text that follows the first \<open>Value: \<close>, up to the
  next \<open>Value: \<close> or to the end of the output, stripped. The marker and the output
  that cannot be parsed differ in the warning that is logged, not in the value returned.
\<close>

theorem guest_ip_outcomes:
  assumes "vboxmanage_path self = Some p" and "p \<noteq> []"
    and "respond w t (ip_cmd p vm_name) = Exited 0 out err"
  shows "(py_in ''No value set!'' (py_strip out) \<longrightarrow> fst (get_vm_ip w self vm_name t) = None)
       \<and> (\<not> py_in ''Value: '' (py_strip out) \<longrightarrow> fst (get_vm_ip w self vm_name t) = None)
       \<and> (\<forall>pre v. \<not> py_in ''No value set!'' (py_strip out)
             \<and> py_strip out = pre @ ''Value: '' @ v
             \<and> \<not> py_in ''Value: '' (pre @ ''Value:'') \<and> \<not> py_in ''Value: '' v \<longrightarrow>
             fst (get_vm_ip w self vm_name t) = Some (py_strip v))
       \<and> (\<forall>pre v more. \<not> py_in ''No value set!'' (py_strip out)
             \<and> py_strip out = pre @ ''Value: '' @ v @ ''Value: '' @ more
             \<and> \<not> py_in ''Value: '' (pre @ ''Value:'') \<and> \<not> py_in ''Value: '' (v @ ''Value:'') \<longrightarrow>
             fst (get_vm_ip w self vm_name t) = Some (py_strip v))
       \<and> (\<forall>o1 o2. py_in ''No value set!'' o1
             \<and> \<not> py_in ''No value set!'' o2 \<and> \<not> py_in ''Value: '' o2 \<longrightarrow>
             get_vm_ip_warning vm_name o1 \<noteq> get_vm_ip_warning vm_name o2)"
proof -
  have run: "get_vm_ip w self vm_name t =
      (case parse_guest_ip (py_strip out) of Inr ip \<Rightarrow> (ip, t @ [ip_cmd p vm_name])
       | Inl e \<Rightarrow> (None, t @ [ip_cmd p vm_name]))"
    using assms by (simp add: get_vm_ip_def subprocess_run_def)
  have sep: "''Value: '' \<noteq> []" "butlast ''Value: '' = ''Value:''"
    by simp_all
  have one: "parse_guest_ip (pre @ ''Value: '' @ v) = Inr (Some (py_strip v))"
    if "\<not> py_in ''No value set!'' (pre @ ''Value: '' @ v)"
      and "\<not> py_in ''Value: '' (pre @ ''Value:'')" and "\<not> py_in ''Value: '' v" for pre v
  proof -
    have occurs: "py_in ''Value: '' (pre @ ''Value: '' @ v)"
      unfolding py_in_iff by blast
    have first: "\<not> py_in ''Value: '' (pre @ butlast ''Value: '')"
      using that(2) by simp
    have "py_split ''Value: '' (pre @ ''Value: '' @ v) = pre # py_split ''Value: '' v"
      by (rule py_split_first [OF sep(1) first])
    also have "\<dots> = [pre, v]"
      by (simp only: py_split_not_in [OF that(3)])
    finally show ?thesis
      using that(1) occurs by (simp add: parse_guest_ip_def)
  qed
  have two: "parse_guest_ip (pre @ ''Value: '' @ v @ ''Value: '' @ more) = Inr (Some (py_strip v))"
    if "\<not> py_in ''No value set!'' (pre @ ''Value: '' @ v @ ''Value: '' @ more)"
      and "\<not> py_in ''Value: '' (pre @ ''Value:'')" and "\<not> py_in ''Value: '' (v @ ''Value:'')"
    for pre v more
  proof -
    have occurs: "py_in ''Value: '' (pre @ ''Value: '' @ v @ ''Value: '' @ more)"
      unfolding py_in_iff by blast
    have first: "\<not> py_in ''Value: '' (pre @ butlast ''Value: '')"
      using that(2) by simp
    have second: "\<not> py_in ''Value: '' (v @ butlast ''Value: '')"
      using that(3) by simp
    have "py_split ''Value: '' (pre @ ''Value: '' @ v @ ''Value: '' @ more) =
        pre # py_split ''Value: '' (v @ ''Value: '' @ more)"
      by (rule py_split_first [OF sep(1) first])
    also have "\<dots> = pre # v # py_split ''Value: '' more"
      by (simp only: py_split_first [OF sep(1) second])
    finally show ?thesis
      using that(1) occurs by (simp add: parse_guest_ip_def)
  qed
  show ?thesis
  proof (intro conjI allI impI)
    assume "py_in ''No value set!'' (py_strip out)"
    then show "fst (get_vm_ip w self vm_name t) = None"
      by (simp add: run parse_guest_ip_def)
  next
    assume "\<not> py_in ''Value: '' (py_strip out)"
    then show "fst (get_vm_ip w self vm_name t) = None"
      by (simp add: run parse_guest_ip_def)
  next
    fix pre v
    assume h: "\<not> py_in ''No value set!'' (py_strip out)
             \<and> py_strip out = pre @ ''Value: '' @ v
             \<and> \<not> py_in ''Value: '' (pre @ ''Value:'') \<and> \<not> py_in ''Value: '' v"
    from h have eq: "py_strip out = pre @ ''Value: '' @ v"
      by blast
    from h have "\<not> py_in ''No value set!'' (py_strip out)"
      by blast
    then have nomark: "\<not> py_in ''No value set!'' (pre @ ''Value: '' @ v)"
      unfolding eq .
    from h have "\<not> py_in ''Value: '' (pre @ ''Value:'')" and "\<not> py_in ''Value: '' v"
      by blast+
    then have "parse_guest_ip (pre @ ''Value: '' @ v) = Inr (Some (py_strip v))"
      by (rule one [OF nomark])
    then show "fst (get_vm_ip w self vm_name t) = Some (py_strip v)"
      unfolding run eq by simp
  next
    fix pre v more
    assume h: "\<not> py_in ''No value set!'' (py_strip out)
             \<and> py_strip out = pre @ ''Value: '' @ v @ ''Value: '' @ more
             \<and> \<not> py_in ''Value: '' (pre @ ''Value:'')
             \<and> \<not> py_in ''Value: '' (v @ ''Value:'')"
    from h have eq: "py_strip out = pre @ ''Value: '' @ v @ ''Value: '' @ more"
      by blast
    from h have "\<not> py_in ''No value set!'' (py_strip out)"
      by blast
    then have nomark: "\<not> py_in ''No value set!'' (pre @ ''Value: '' @ v @ ''Value: '' @ more)"
      unfolding eq .
    from h have "\<not> py_in ''Value: '' (pre @ ''Value:'')"
      and "\<not> py_in ''Value: '' (v @ ''Value:'')"
      by blast+
    then have "parse_guest_ip (pre @ ''Value: '' @ v @ ''Value: '' @ more) =
        Inr (Some (py_strip v))"
      by (rule two [OF nomark])
    then show "fst (get_vm_ip w self vm_name t) = Some (py_strip v)"
      unfolding run eq by simp
  next
    fix o1 o2
    assume "py_in ''No value set!'' o1
          \<and> \<not> py_in ''No value set!'' o2 \<and> \<not> py_in ''Value: '' o2"
    then show "get_vm_ip_warning vm_name o1 \<noteq> get_vm_ip_warning vm_name o2"
      by (simp add: get_vm_ip_warning_def)
  qed
qed

theorem guest_ip_outcomes_witness:
  "fst (get_vm_ip (world_answering ''Value: 10.0.2.15'') located_manager ''web-01'' []) =
     Some ''10.0.2.15''
   \<and> fst (get_vm_ip (world_answering ''No value set!'') located_manager ''web-01'' []) = None"
proof -
  have nonempty: "''VBoxManage'' \<noteq> []"
    by simp
  have answer: "respond (world_answering out) [] (ip_cmd ''VBoxManage'' ''web-01'') =
      Exited 0 out []" for out
    by (simp add: world_answering_def)
  note with_value = guest_ip_outcomes [OF located_manager_path nonempty
      answer [of "''Value: 10.0.2.15''"]]
  note with_marker = guest_ip_outcomes [OF located_manager_path nonempty
      answer [of "''No value set!''"]]
  have "fst (get_vm_ip (world_answering ''Value: 10.0.2.15'') located_manager ''web-01'' []) =
      Some (py_strip ''10.0.2.15'')"
    by (rule with_value [THEN conjunct2, THEN conjunct2, THEN conjunct1, rule_format,
          of "[]" "''10.0.2.15''"])
      (simp add: py_strip_def isspace_def)
  moreover have "py_strip ''10.0.2.15'' = ''10.0.2.15''"
    by (simp add: py_strip_def isspace_def)
  moreover
  have "fst (get_vm_ip (world_answering ''No value set!'') located_manager ''web-01'' []) = None"
    by (rule with_marker [THEN conjunct1, rule_format]) (simp add: py_strip_def isspace_def)
  ultimately show ?thesis
    by simp
qed

subsection \<open>Installing the guest additions\<close>













end
